theory Spec2Isabelle
  imports Complex_Main "HOL-Library.Sublist"
begin

section \<open>Python values and exceptions\<close>

text \<open>
  The notebook \<^verbatim>\<open>Netflix_Case_Study.ipynb\<close> is a sequence of cells over one pandas
  table \<^verbatim>\<open>df\<close>. A Python string is a list of code points; the model covers code points
  below 256 (one \<^typ>\<open>char\<close> each). Every exception a cell can raise is a value of
  \<open>error\<close>, and a computation that can raise returns \<open>error + 'a\<close>.
\<close>

datatype error = ValueError | IndexError | TypeError | ZeroDivisionError | NameError

text \<open>
  A Python \<^verbatim>\<open>float\<close>. \<open>Finite q\<close> carries the exact decimal value \<open>q\<close> of the literal that
  was converted: the rounding to binary64 is monotone and keeps the sign, and it is left
  out of the model. \<open>NaN\<close> is also \<^verbatim>\<open>np.nan\<close>.
\<close>

datatype pyfloat = Finite rat | PosInf | NegInf | NaN

text \<open>The values a table cell handed to \<^verbatim>\<open>Series.apply\<close> can be.\<close>

datatype pyval = Str string | FloatVal pyfloat | IntVal int | BoolVal bool | NoneVal

section \<open>String methods\<close>

text \<open>\<^verbatim>\<open>str.isspace\<close> on one code point below 256.\<close>

definition isspace :: "char \<Rightarrow> bool" where
  "isspace c = (of_char c \<in> {9, 10, 11, 12, 13, 28, 29, 30, 31, 32, 133, 160 :: nat})"

definition isdigit :: "char \<Rightarrow> bool" where
  "isdigit c = (48 \<le> (of_char c :: nat) \<and> (of_char c :: nat) \<le> 57)"

definition digit_val :: "char \<Rightarrow> nat" where
  "digit_val c = of_char c - 48"

text \<open>\<^verbatim>\<open>x.strip()\<close>: whitespace removed at both ends.\<close>

definition strip :: "string \<Rightarrow> string" where
  "strip s = rev (dropWhile isspace (rev (dropWhile isspace s)))"

text \<open>
  \<^verbatim>\<open>x.split()\<close> without a separator: skip a run of whitespace, cut the token at the next
  whitespace, repeat; no empty token is produced.
\<close>

function split_ws :: "string \<Rightarrow> string list" where
  "split_ws s =
     (case dropWhile isspace s of
        [] \<Rightarrow> []
      | c # cs \<Rightarrow> takeWhile (\<lambda>d. \<not> isspace d) (c # cs)
                 # split_ws (dropWhile (\<lambda>d. \<not> isspace d) (c # cs)))"
  by pat_completeness auto
termination
proof (relation "measure length", goal_cases)
  case 1
  show ?case by simp
next
  case (2 s c cs)
  have "length (dropWhile (\<lambda>d. \<not> isspace d) cs) \<le> length cs"
    by (rule length_dropWhile_le)
  moreover have "\<not> isspace c"
    using 2 hd_dropWhile [of isspace s] by (metis list.sel(1) list.distinct(1))
  moreover have "length (dropWhile isspace s) \<le> length s"
    by (rule length_dropWhile_le)
  ultimately show ?case using 2 by simp
qed

declare split_ws.simps [simp del]

text \<open>
  \<^verbatim>\<open>x.split(sep)\<close> with a separator: cut at each occurrence of \<open>sep\<close>, found from the
  left and not overlapping. \<open>find_sep\<close> gives the text before the first occurrence
  and the text after it. (Python rejects an empty separator with \<^verbatim>\<open>ValueError\<close>; the
  notebook passes the constants \<^verbatim>\<open>','\<close> and \<^verbatim>\<open>', '\<close> only, and \<open>split_from\<close>
  leaves the string whole for an empty one.)
\<close>

fun find_sep :: "string \<Rightarrow> string \<Rightarrow> (string \<times> string) option" where
  "find_sep sep [] = (if sep = [] then Some ([], []) else None)"
| "find_sep sep (c # cs) =
     (if prefix sep (c # cs) then Some ([], drop (length sep) (c # cs))
      else (case find_sep sep cs of
              None \<Rightarrow> None
            | Some (p, r) \<Rightarrow> Some (c # p, r)))"

function split_from :: "string \<Rightarrow> string \<Rightarrow> string list" where
  "split_from sep s =
     (if sep = [] then [s]
      else (case find_sep sep s of
              None \<Rightarrow> [s]
            | Some (p, r) \<Rightarrow> p # split_from sep r))"
  by pat_completeness auto
termination
proof (relation "measure (\<lambda>(sep, s). length s)", goal_cases)
  case 1
  show ?case by simp
next
  case (2 sep s x p r)
  have "find_sep sep s = Some (p, r) \<Longrightarrow> sep \<noteq> [] \<Longrightarrow> length r < length s" for s p r
  proof (induction s arbitrary: p)
    case Nil
    then show ?case by simp
  next
    case (Cons c cs)
    then show ?case
      by (cases sep) (auto split: if_splits option.splits)
  qed
  with 2 show ?case by auto
qed

declare split_from.simps [simp del]

text \<open>\<^verbatim>\<open>xs[0]\<close>: the first element, \<^verbatim>\<open>IndexError\<close> on an empty list.\<close>

definition getitem0 :: "'a list \<Rightarrow> error + 'a" where
  "getitem0 xs = (case xs of [] \<Rightarrow> Inl IndexError | x # _ \<Rightarrow> Inr x)"

section \<open>The conversions \<^verbatim>\<open>int(s)\<close> and \<^verbatim>\<open>float(s)\<close>\<close>

text \<open>
  Both conversions first pass the string through CPython's
  \<^verbatim>\<open>_PyUnicode_TransformDecimalAndSpaceToASCII\<close>: an all-ASCII string is kept as it is; in
  any other string a code point from 127 on becomes a blank when it is whitespace and
  \<^verbatim>\<open>?\<close> otherwise (below 256 the only decimal digits are the ASCII ones). The parsers
  then skip the C whitespace (\<^verbatim>\<open>Py_ISSPACE\<close>) at both ends.
\<close>

definition ascii_transform :: "string \<Rightarrow> string" where
  "ascii_transform s =
     (if list_all (\<lambda>c. (of_char c :: nat) < 128) s then s
      else map (\<lambda>c. if (of_char c :: nat) < 127 then c
                     else if isspace c then CHR '' '' else CHR ''?'') s)"

definition c_isspace :: "char \<Rightarrow> bool" where
  "c_isspace c = (of_char c \<in> {9, 10, 11, 12, 13, 32 :: nat})"

definition c_strip :: "string \<Rightarrow> string" where
  "c_strip s = rev (dropWhile c_isspace (rev (dropWhile c_isspace s)))"

text \<open>A leading sign: whether it is a minus, and the text after it.\<close>

definition split_sign :: "string \<Rightarrow> bool \<times> string" where
  "split_sign s =
     (case s of
        [] \<Rightarrow> (False, [])
      | c # cs \<Rightarrow> if c = CHR ''-'' then (True, cs)
                 else if c = CHR ''+'' then (False, cs) else (False, s))"

text \<open>\<^verbatim>\<open>digitpart ::= digit (["_"] digit)*\<close>\<close>

fun digitpart :: "string \<Rightarrow> bool" where
  "digitpart [] = False"
| "digitpart [c] = isdigit c"
| "digitpart (c # d # cs) =
     (isdigit c \<and> (if d = CHR ''_'' then digitpart cs else digitpart (d # cs)))"

definition digits_value :: "string \<Rightarrow> nat" where
  "digits_value ds = foldl (\<lambda>n c. 10 * n + digit_val c) 0 ds"

text \<open>
  \<^verbatim>\<open>int(s)\<close> in base 10: whitespace, an optional sign, digits with single underscores
  between them, whitespace; anything else raises \<^verbatim>\<open>ValueError\<close>. (The limit on the
  number of digits that recent interpreters add raises \<^verbatim>\<open>ValueError\<close> as well and is left
  out.)
\<close>

definition py_int :: "string \<Rightarrow> error + int" where
  "py_int s =
     (let (neg, body) = split_sign (c_strip (ascii_transform s))
      in if digitpart body
         then Inr ((if neg then - 1 else 1) * int (digits_value (filter isdigit body)))
         else Inl ValueError)"

text \<open>
  \<^verbatim>\<open>float(s)\<close>. Underscores are checked and removed first, as
  \<^verbatim>\<open>_Py_string_to_number_with_underscores\<close> does, with the previous character in hand: an
  underscore needs a digit before it and a digit after it.
\<close>

fun underscores :: "char \<Rightarrow> string \<Rightarrow> string option" where
  "underscores prev [] = (if prev = CHR ''_'' then None else Some [])"
| "underscores prev (c # cs) =
     (if c = CHR ''_'' then (if isdigit prev then underscores c cs else None)
      else if prev = CHR ''_'' \<and> \<not> isdigit c then None
      else (case underscores c cs of None \<Rightarrow> None | Some r \<Rightarrow> Some (c # r)))"

definition lower :: "char \<Rightarrow> char" where
  "lower c = (if 65 \<le> (of_char c :: nat) \<and> (of_char c :: nat) \<le> 90
              then char_of ((of_char c :: nat) + 32) else c)"

definition pow10 :: "int \<Rightarrow> rat" where
  "pow10 e = (if 0 \<le> e then 10 ^ nat e else 1 / 10 ^ nat (- e))"

text \<open>The exponent part: nothing, or \<^verbatim>\<open>e\<close> or \<^verbatim>\<open>E\<close>, an optional sign and digits.\<close>

definition exponent :: "string \<Rightarrow> int option" where
  "exponent s =
     (case s of
        [] \<Rightarrow> Some 0
      | c # cs \<Rightarrow>
          if c = CHR ''e'' \<or> c = CHR ''E''
          then (let (neg, ds) = split_sign cs
                in if ds \<noteq> [] \<and> list_all isdigit ds
                   then Some ((if neg then - 1 else 1) * int (digits_value ds))
                   else None)
          else None)"

text \<open>
  \<^verbatim>\<open>floatnumber\<close> without its sign: digits, an optional point and digits, at least one
  digit in all, and an optional exponent.
\<close>

definition float_number :: "string \<Rightarrow> rat option" where
  "float_number b =
     (let ip = takeWhile isdigit b;
          r1 = dropWhile isdigit b;
          (fp, r2) = (case r1 of
                        [] \<Rightarrow> ([], [])
                      | c # r \<Rightarrow> if c = CHR ''.''
                                then (takeWhile isdigit r, dropWhile isdigit r)
                                else ([], r1))
      in if ip = [] \<and> fp = [] then None
         else (case exponent r2 of
                 None \<Rightarrow> None
               | Some e \<Rightarrow> Some (of_nat (digits_value (ip @ fp)) * pow10 (e - int (length fp)))))"

definition py_float :: "string \<Rightarrow> error + pyfloat" where
  "py_float s =
     (case underscores (CHR 0x00) (ascii_transform s) of
        None \<Rightarrow> Inl ValueError
      | Some u \<Rightarrow>
          (let (neg, body) = split_sign (c_strip u);
               word = map lower body
           in if word = ''inf'' \<or> word = ''infinity'' then Inr (if neg then NegInf else PosInf)
              else if word = ''nan'' then Inr NaN
              else (case float_number body of
                      None \<Rightarrow> Inl ValueError
                    | Some q \<Rightarrow> Inr (Finite (if neg then - q else q)))))"

section \<open>The two duration parsers\<close>

text \<open>
  \<^verbatim>\<open>
  def parse_movie_duration(x):
      if isinstance(x, str) and x.strip().endswith('min'):
          return float(x.strip().split()[0])
      else:
          return np.nan
  \<close>
\<close>

definition parse_movie_duration :: "pyval \<Rightarrow> error + pyfloat" where
  "parse_movie_duration x =
     (case x of
        Str s \<Rightarrow>
          if suffix ''min'' (strip s)
          then (case getitem0 (split_ws (strip s)) of
                  Inl e \<Rightarrow> Inl e
                | Inr tok \<Rightarrow> py_float tok)
          else Inr NaN
      | _ \<Rightarrow> Inr NaN)"

text \<open>
  \<^verbatim>\<open>
  def parse_seasons(x):
      if isinstance(x, str) and 'Season' in x:
          num = x.split()[0]
          try:
              return int(num)
          except ValueError:
              return np.nan
      return np.nan
  \<close>
  The result is an integer or \<^verbatim>\<open>np.nan\<close> (\<open>None\<close>). Only \<^verbatim>\<open>ValueError\<close> is caught.
\<close>

definition parse_seasons :: "pyval \<Rightarrow> error + int option" where
  "parse_seasons x =
     (case x of
        Str s \<Rightarrow>
          if sublist ''Season'' s
          then (case getitem0 (split_ws s) of
                  Inl e \<Rightarrow> Inl e
                | Inr num \<Rightarrow>
                    (case py_int num of
                       Inr n \<Rightarrow> Inr (Some n)
                     | Inl ValueError \<Rightarrow> Inr None
                     | Inl e \<Rightarrow> Inl e))
          else Inr None
      | _ \<Rightarrow> Inr None)"

text \<open>\<^verbatim>\<open>Series.apply(f)\<close>: \<open>f\<close> on each cell in order; the first exception ends it.\<close>

fun apply_series :: "('a \<Rightarrow> error + 'b) \<Rightarrow> 'a list \<Rightarrow> error + 'b list" where
  "apply_series f [] = Inr []"
| "apply_series f (x # xs) =
     (case f x of
        Inl e \<Rightarrow> Inl e
      | Inr y \<Rightarrow> (case apply_series f xs of Inl e \<Rightarrow> Inl e | Inr ys \<Rightarrow> Inr (y # ys)))"

section \<open>The table\<close>

text \<open>
  One row of \<^verbatim>\<open>df\<close>. A text column of the CSV holds a string or is null (\<open>None\<close>, pandas'
  \<^verbatim>\<open>NaN\<close>). \<^verbatim>\<open>date_added\<close> holds text before the date cell and a timestamp after it. The
  columns the notebook adds later (\<^verbatim>\<open>added_year\<close>, \<^verbatim>\<open>added_month\<close>, \<^verbatim>\<open>added_day\<close>,
  \<^verbatim>\<open>duration_int\<close>, \<^verbatim>\<open>seasons\<close>) are \<open>None\<close> until they are assigned; \<^verbatim>\<open>np.nan\<close> in
  \<^verbatim>\<open>duration_int\<close> is \<open>Some NaN\<close>, and in \<^verbatim>\<open>seasons\<close> it is \<open>None\<close>.
\<close>

record date =
  year :: nat
  month :: nat
  day :: nat

datatype datecell = DateNull | DateStr string | Timestamp date

record row =
  type :: "string option"
  title :: "string option"
  director :: "string option"
  cast :: "string option"
  country :: "string option"
  date_added :: datecell
  rating :: "string option"
  duration :: "string option"
  listed_in :: "string option"
  added_year :: "nat option"
  added_month :: "nat option"
  added_day :: "nat option"
  duration_int :: "pyfloat option"
  seasons :: "int option"

type_synonym frame = "row list"

text \<open>A cell of a text column as the Python value \<^verbatim>\<open>Series.apply\<close> passes on.\<close>

definition cell :: "string option \<Rightarrow> pyval" where
  "cell c = (case c of None \<Rightarrow> FloatVal NaN | Some s \<Rightarrow> Str s)"

text \<open>\<^verbatim>\<open>Series.dropna()\<close> on a text column.\<close>

definition dropna :: "'a option list \<Rightarrow> 'a list" where
  "dropna col = concat (map (\<lambda>c. case c of None \<Rightarrow> [] | Some v \<Rightarrow> [v]) col)"

section \<open>The cleaning cell\<close>

text \<open>
  \<^verbatim>\<open>
  initial_count = len(df)
  missing_rating = df['rating'].isna().sum()  (and duration, date_added)
  df = df.dropna(subset=['rating', 'duration', 'date_added'])
  dropped = initial_count - len(df)
  print(f"Dropped {dropped} rows ({dropped/initial_count:.1%} of the dataset)")
  df['country'] = df['country'].fillna('No Data')   (and cast, director)
  \<close>
  The division in the \<^verbatim>\<open>print\<close> raises \<^verbatim>\<open>ZeroDivisionError\<close> on a table without rows,
  before any column is filled.
\<close>

definition has_required :: "row \<Rightarrow> bool" where
  "has_required r = (rating r \<noteq> None \<and> duration r \<noteq> None \<and> date_added r \<noteq> DateNull)"

definition fillna :: "string \<Rightarrow> string option \<Rightarrow> string option" where
  "fillna v c = (case c of None \<Rightarrow> Some v | Some s \<Rightarrow> Some s)"

definition fill_optional :: "row \<Rightarrow> row" where
  "fill_optional r =
     r\<lparr>country := fillna ''No Data'' (country r),
       cast := fillna ''No Data'' (cast r),
       director := fillna ''No Data'' (director r)\<rparr>"

record cleaning_report =
  missing_rating :: nat
  missing_duration :: nat
  missing_date :: nat
  dropped :: nat

definition cleaning_cell :: "frame \<Rightarrow> error + cleaning_report \<times> frame" where
  "cleaning_cell df0 =
     (let initial_count = length df0;
          df1 = filter has_required df0;
          rep = \<lparr>missing_rating = length (filter (\<lambda>r. rating r = None) df0),
                 missing_duration = length (filter (\<lambda>r. duration r = None) df0),
                 missing_date = length (filter (\<lambda>r. date_added r = DateNull) df0),
                 dropped = initial_count - length df1\<rparr>
      in if initial_count = 0 then Inl ZeroDivisionError
         else Inr (rep, map fill_optional df1))"

section \<open>The date cell\<close>

text \<open>
  \<^verbatim>\<open>pd.to_datetime(df['date_added'], format='%B %d, %Y', errors='coerce')\<close>. The format is
  matched as \<^verbatim>\<open>strptime\<close> compiles it, against the whole string and ignoring case:
  \<^verbatim>\<open>%B\<close> is a full English month name (the C locale), a blank of the format is one or
  more whitespace characters, \<^verbatim>\<open>%d\<close> is one of \<^verbatim>\<open>3[0-1]\<close>, \<^verbatim>\<open>[1-2]\d\<close>, \<^verbatim>\<open>0[1-9]\<close>,
  \<^verbatim>\<open>[1-9]\<close> (one or two digits of value 1 to 31, since a comma follows), \<^verbatim>\<open>%Y\<close> is four
  digits. The date must exist in the calendar. With \<^verbatim>\<open>errors='coerce'\<close> a value that does
  not parse becomes \<^verbatim>\<open>NaT\<close>. (The range of years a nanosecond timestamp can hold is not
  modelled.)
\<close>

definition month_names :: "string list" where
  "month_names = [''january'', ''february'', ''march'', ''april'', ''may'', ''june'',
     ''july'', ''august'', ''september'', ''october'', ''november'', ''december'']"

definition match_month :: "string \<Rightarrow> (nat \<times> string) option" where
  "match_month s =
     (case filter (\<lambda>(i, m). prefix m (map lower s)) (enumerate 1 month_names) of
        [] \<Rightarrow> None
      | (i, m) # _ \<Rightarrow> Some (i, drop (length m) s))"

definition match_space :: "string \<Rightarrow> string option" where
  "match_space s =
     (case s of [] \<Rightarrow> None
      | c # cs \<Rightarrow> if isspace c then Some (dropWhile isspace cs) else None)"

definition match_day :: "string \<Rightarrow> (nat \<times> string) option" where
  "match_day s =
     (let ds = takeWhile isdigit s; v = digits_value ds
      in if (length ds = 1 \<or> length ds = 2) \<and> 1 \<le> v \<and> v \<le> 31
         then Some (v, dropWhile isdigit s) else None)"

definition match_year :: "string \<Rightarrow> nat option" where
  "match_year s = (if length s = 4 \<and> list_all isdigit s then Some (digits_value s) else None)"

definition is_leap :: "nat \<Rightarrow> bool" where
  "is_leap y = (y mod 4 = 0 \<and> (y mod 100 \<noteq> 0 \<or> y mod 400 = 0))"

definition days_in_month :: "nat \<Rightarrow> nat \<Rightarrow> nat" where
  "days_in_month y m =
     (if m = 2 then (if is_leap y then 29 else 28)
      else if m = 4 \<or> m = 6 \<or> m = 9 \<or> m = 11 then 30 else 31)"

definition strptime :: "string \<Rightarrow> date option" where
  "strptime s =
     (case match_month s of
        None \<Rightarrow> None
      | Some (m, r1) \<Rightarrow>
      (case match_space r1 of
        None \<Rightarrow> None
      | Some r2 \<Rightarrow>
      (case match_day r2 of
        None \<Rightarrow> None
      | Some (d, r3) \<Rightarrow>
      (case r3 of
        [] \<Rightarrow> None
      | c # r4 \<Rightarrow>
          if c \<noteq> CHR '','' then None
          else
      (case match_space r4 of
        None \<Rightarrow> None
      | Some r5 \<Rightarrow>
      (case match_year r5 of
        None \<Rightarrow> None
      | Some y \<Rightarrow>
          if 1 \<le> y \<and> d \<le> days_in_month y m
          then Some \<lparr>year = y, month = m, day = d\<rparr> else None))))))"

definition to_datetime :: "datecell \<Rightarrow> datecell" where
  "to_datetime c =
     (case c of
        DateNull \<Rightarrow> DateNull
      | DateStr s \<Rightarrow> (case strptime s of None \<Rightarrow> DateNull | Some d \<Rightarrow> Timestamp d)
      | Timestamp d \<Rightarrow> Timestamp d)"

text \<open>
  \<^verbatim>\<open>
  df['date_added'] = pd.to_datetime(df['date_added'], format='%B %d, %Y', errors='coerce')
  failed_dates = df['date_added'].isna().sum()
  df = df.dropna(subset=['date_added'])
  df['added_year'] = df['date_added'].dt.year   (and month, day)
  \<close>
  The cell gives \<^verbatim>\<open>failed_dates\<close> and the new \<^verbatim>\<open>df\<close>.
\<close>

definition parse_dates :: "frame \<Rightarrow> frame" where
  "parse_dates df0 = map (\<lambda>r. r\<lparr>date_added := to_datetime (date_added r)\<rparr>) df0"

definition extract_ymd :: "row \<Rightarrow> row" where
  "extract_ymd r =
     (case date_added r of
        Timestamp d \<Rightarrow> r\<lparr>added_year := Some (year d), added_month := Some (month d),
                          added_day := Some (day d)\<rparr>
      | _ \<Rightarrow> r)"

definition date_cell :: "frame \<Rightarrow> nat \<times> frame" where
  "date_cell df0 =
     (let df1 = parse_dates df0;
          failed_dates = length (filter (\<lambda>r. date_added r = DateNull) df1);
          df2 = filter (\<lambda>r. date_added r \<noteq> DateNull) df1
      in (failed_dates, map extract_ymd df2))"

section \<open>Frequency tables\<close>

text \<open>
  \<^verbatim>\<open>collections.Counter(xs)\<close> is a dictionary, which keeps its keys in the order of their
  first insertion: an association list. Each element adds one to its own entry, or
  opens a new entry at the end.
\<close>

fun incr :: "'a \<Rightarrow> ('a \<times> nat) list \<Rightarrow> ('a \<times> nat) list" where
  "incr k [] = [(k, 1)]"
| "incr k ((k', n) # kvs) = (if k' = k then (k', Suc n) # kvs else (k', n) # incr k kvs)"

definition Counter :: "'a list \<Rightarrow> ('a \<times> nat) list" where
  "Counter xs = foldl (\<lambda>c x. incr x c) [] xs"

text \<open>
  \<^verbatim>\<open>Counter.most_common(n)\<close> is \<^verbatim>\<open>heapq.nlargest(n, items, key=count)\<close>, documented as
  \<^verbatim>\<open>sorted(items, key=count, reverse=True)[:n]\<close>: a stable sort, equal counts staying in
  the order of the dictionary.
\<close>

definition sort_desc :: "('a \<times> nat) list \<Rightarrow> ('a \<times> nat) list" where
  "sort_desc kvs = sort_key (\<lambda>kv. - int (snd kv)) kvs"

definition most_common :: "nat \<Rightarrow> ('a \<times> nat) list \<Rightarrow> ('a \<times> nat) list" where
  "most_common n c = take n (sort_desc c)"


section \<open>The country and genre cell\<close>

text \<open>
  \<^verbatim>\<open>
  unique_countries = df[df['country'] != 'No Data']['country'].nunique()
  top_countries = (df[df['country'] != 'No Data']['country'].value_counts().head(10))
  \<close>
  A null is different from \<^verbatim>\<open>'No Data'\<close>, so the comparison keeps it; \<^verbatim>\<open>nunique\<close> and
  \<^verbatim>\<open>value_counts\<close> then leave it out.
\<close>

definition country_column :: "frame \<Rightarrow> string option list" where
  "country_column df0 = filter (\<lambda>c. c \<noteq> Some ''No Data'') (map country df0)"

definition unique_countries :: "frame \<Rightarrow> nat" where
  "unique_countries df0 = length (remdups (dropna (country_column df0)))"



text \<open>
  \<^verbatim>\<open>
  all_genres = []
  for cell in df['listed_in'].dropna():
      for genre in cell.split(','):
          all_genres.append(genre.strip())
  top10_genres = Counter(all_genres).most_common(10)
  \<close>
\<close>

definition all_genres :: "frame \<Rightarrow> string list" where
  "all_genres df0 =
     concat (map (\<lambda>c. map strip (split_from '','' c)) (dropna (map listed_in df0)))"


section \<open>The actor cell\<close>

text \<open>
  \<^verbatim>\<open>
  cast_series = df[df['cast'] != 'No Data']['cast'].str.split(', ')
  flat_cast_list = [actor.strip() for sublist in cast_series for actor in sublist]
  top_actors = Counter(flat_cast_list).most_common(10)
  \<close>
  \<^verbatim>\<open>.str.split\<close> leaves a null cell null, and iterating over it raises \<^verbatim>\<open>TypeError\<close>.
\<close>

definition cast_series :: "frame \<Rightarrow> string list option list" where
  "cast_series df0 =
     map (map_option (split_from '', ''))
         (filter (\<lambda>c. c \<noteq> Some ''No Data'') (map cast df0))"

fun flatten_cast :: "string list option list \<Rightarrow> error + string list" where
  "flatten_cast [] = Inr []"
| "flatten_cast (None # rest) = Inl TypeError"
| "flatten_cast (Some actors # rest) =
     (case flatten_cast rest of
        Inl e \<Rightarrow> Inl e
      | Inr acc \<Rightarrow> Inr (map strip actors @ acc))"

definition flat_cast_list :: "frame \<Rightarrow> error + string list" where
  "flat_cast_list df0 = flatten_cast (cast_series df0)"


section \<open>The movie and season cells\<close>

text \<open>
  The cells work on named tables. A table is an object in a store, and a variable holds
  the address of its object (or is unbound): an assignment to a column changes the
  object in place, for every variable bound to it, while a selection, \<^verbatim>\<open>.copy()\<close> and
  \<^verbatim>\<open>dropna\<close> allocate a new object. Addresses are positions in the store.
\<close>

record notebook =
  frames :: "frame list"
  df :: "nat option"
  df_movies :: "nat option"
  df_shows :: "nat option"
  bad_durations :: "nat option"
  fail_count :: "nat option"

text \<open>Reading a variable: \<^verbatim>\<open>NameError\<close> when it is not bound to an object.\<close>

definition read_var :: "notebook \<Rightarrow> nat option \<Rightarrow> error + frame" where
  "read_var nb v =
     (case v of
        None \<Rightarrow> Inl NameError
      | Some a \<Rightarrow> if a < length (frames nb) then Inr (frames nb ! a) else Inl NameError)"

text \<open>A new object: its address and the store that holds it.\<close>

definition alloc :: "frame \<Rightarrow> frame list \<Rightarrow> nat \<times> frame list" where
  "alloc f st = (length st, st @ [f])"

definition isna_float :: "pyfloat option \<Rightarrow> bool" where
  "isna_float v = (v = None \<or> v = Some NaN)"

text \<open>\<^verbatim>\<open>frame['duration_int'] = col\<close> and \<^verbatim>\<open>frame['seasons'] = col\<close>, row by row.\<close>

definition set_duration_int :: "frame \<Rightarrow> pyfloat list \<Rightarrow> frame" where
  "set_duration_int f col = map (\<lambda>(r, v). r\<lparr>duration_int := Some v\<rparr>) (zip f col)"


text \<open>
  \<^verbatim>\<open>
  df_movies = df[df['type'] == 'Movie'].copy()
  df_movies['duration_int'] = df_movies['duration'].apply(parse_movie_duration)
  bad_durations = df_movies['duration_int'].isna().sum()
  df_movies = df_movies.dropna(subset=['duration_int'])
  \<close>
  The cell gives the exception that ended it, if any, and the notebook as it left it.
\<close>

definition movies_cell :: "notebook \<Rightarrow> error option \<times> notebook" where
  "movies_cell nb =
     (case read_var nb (df nb) of
        Inl e \<Rightarrow> (Some e, nb)
      | Inr d \<Rightarrow>
          (let sel = filter (\<lambda>r. type r = Some ''Movie'') d;
               (a, st1) = alloc sel (frames nb);
               nb1 = nb\<lparr>frames := st1, df_movies := Some a\<rparr>
           in case apply_series parse_movie_duration (map (\<lambda>r. cell (duration r)) sel) of
                Inl e \<Rightarrow> (Some e, nb1)
              | Inr col \<Rightarrow>
                  (let st2 = st1[a := set_duration_int (st1 ! a) col];
                       bad = length (filter (\<lambda>r. isna_float (duration_int r)) (st2 ! a));
                       (b, st3) = alloc (filter (\<lambda>r. \<not> isna_float (duration_int r)) (st2 ! a)) st2
                   in (None, nb1\<lparr>frames := st3, df_movies := Some b,
                                  bad_durations := Some bad\<rparr>))))"


text \<open>
  The notebook from the loaded table to the start of the aggregations: the table is
  bound to \<^verbatim>\<open>df\<close>, cleaned, and its dates are parsed.
\<close>

definition cleaned :: "frame \<Rightarrow> error + frame" where
  "cleaned raw =
     (case cleaning_cell raw of
        Inl e \<Rightarrow> Inl e
      | Inr (rep, df1) \<Rightarrow> Inr (snd (date_cell df1)))"

definition start :: "frame \<Rightarrow> notebook" where
  "start d = \<lparr>frames = [d], df = Some 0, df_movies = None, df_shows = None,
              bad_durations = None, fail_count = None\<rparr>"

text \<open>A row with every column null, from which concrete rows are built.\<close>

definition blank_row :: row where
  "blank_row = \<lparr>type = None, title = None, director = None, cast = None, country = None,
     date_added = DateNull, rating = None, duration = None, listed_in = None,
     added_year = None, added_month = None, added_day = None, duration_int = None,
     seasons = None\<rparr>"

text \<open>
  The tables the duration histogram and the season chart are drawn from, for a notebook
  whose \<^verbatim>\<open>df\<close> is \<open>d\<close>: \<^verbatim>\<open>df_movies\<close> after the movie cell and \<^verbatim>\<open>df_shows\<close> after
  the season cell, or the exception that ended the cell.
\<close>

definition movies_table :: "frame \<Rightarrow> error + frame" where
  "movies_table d =
     (case movies_cell (start d) of
        (Some e, nb') \<Rightarrow> Inl e
      | (None, nb') \<Rightarrow> read_var nb' (df_movies nb'))"


section \<open>Notions the properties are stated with\<close>

text \<open>The position at which \<open>k\<close> is first met in \<open>xs\<close> (the length of \<open>xs\<close> if never).\<close>

definition first_index :: "'a list \<Rightarrow> 'a \<Rightarrow> nat" where
  "first_index xs k = length (takeWhile (\<lambda>x. x \<noteq> k) xs)"

text \<open>The distinct elements of \<open>xs\<close>, each at its first occurrence.\<close>

definition firsts :: "'a list \<Rightarrow> 'a list" where
  "firsts xs = rev (remdups (rev xs))"

text \<open>
  Entry \<open>a\<close> may stand before entry \<open>b\<close> in a ranking of the tokens \<open>toks\<close>: its count is
  larger, or the counts are equal and its token was met first.
\<close>

definition ranks_before :: "'a list \<Rightarrow> 'a \<times> nat \<Rightarrow> 'a \<times> nat \<Rightarrow> bool" where
  "ranks_before toks a b =
     (snd b < snd a \<or> (snd a = snd b \<and> first_index toks (fst a) < first_index toks (fst b)))"

text \<open>The number of positions of \<open>s\<close> at which \<open>sep\<close> occurs.\<close>

fun occurrences :: "string \<Rightarrow> string \<Rightarrow> nat" where
  "occurrences sep [] = 0"
| "occurrences sep (c # cs) = (if prefix sep (c # cs) then 1 else 0) + occurrences sep cs"

text \<open>Python's \<^verbatim>\<open>v >= 0\<close> on a float.\<close>

definition nonneg :: "pyfloat \<Rightarrow> bool" where
  "nonneg v = (case v of Finite q \<Rightarrow> 0 \<le> q | PosInf \<Rightarrow> True | NegInf \<Rightarrow> False | NaN \<Rightarrow> False)"


text \<open>The cast fields that are not the sentinel.\<close>

definition cast_fields :: "frame \<Rightarrow> string list" where
  "cast_fields df0 = filter (\<lambda>c. c \<noteq> ''No Data'') (dropna (map cast df0))"

section \<open>Example tables\<close>

text \<open>
  A loaded table of four rows: a movie without country and cast, a show whose date
  does not parse, a row without rating, and a show made in two countries.
\<close>

definition example_raw :: frame where
  "example_raw =
     [blank_row\<lparr>type := Some ''Movie'', title := Some ''One'', rating := Some ''PG'',
        duration := Some ''90 min'', date_added := DateStr ''January 1, 2020'',
        listed_in := Some ''Drama, Comedy, Drama''\<rparr>,
      blank_row\<lparr>type := Some ''TV Show'', title := Some ''Two'', rating := Some ''R'',
        duration := Some ''3 Seasons'', date_added := DateStr ''not a date'',
        country := Some ''India'', cast := Some ''A, B'', listed_in := Some ''Drama''\<rparr>,
      blank_row\<lparr>type := Some ''Movie'', title := Some ''Three'',
        duration := Some ''100 min'', date_added := DateStr ''May 5, 2019''\<rparr>,
      blank_row\<lparr>type := Some ''TV Show'', title := Some ''Four'', rating := Some ''TV-MA'',
        duration := Some ''0 Seasons'', date_added := DateStr ''September 24, 2021'',
        country := Some ''United States, India'', cast := Some ''A,B, C'',
        listed_in := Some ''Comedy''\<rparr>]"

text \<open>The same table after the cleaning cell and the date cell.\<close>

definition example_df :: frame where
  "example_df =
     [blank_row\<lparr>type := Some ''Movie'', title := Some ''One'', rating := Some ''PG'',
        duration := Some ''90 min'',
        date_added := Timestamp \<lparr>year = 2020, month = 1, day = 1\<rparr>,
        listed_in := Some ''Drama, Comedy, Drama'', country := Some ''No Data'',
        cast := Some ''No Data'', director := Some ''No Data'',
        added_year := Some 2020, added_month := Some 1, added_day := Some 1\<rparr>,
      blank_row\<lparr>type := Some ''TV Show'', title := Some ''Four'', rating := Some ''TV-MA'',
        duration := Some ''0 Seasons'',
        date_added := Timestamp \<lparr>year = 2021, month = 9, day = 24\<rparr>,
        country := Some ''United States, India'', cast := Some ''A,B, C'',
        listed_in := Some ''Comedy'', director := Some ''No Data'',
        added_year := Some 2021, added_month := Some 9, added_day := Some 24\<rparr>]"

text \<open>A loaded table with one movie whose duration carries a minus sign, and the
  same table cleaned.\<close>

definition negative_raw :: frame where
  "negative_raw =
     [blank_row\<lparr>type := Some ''Movie'', title := Some ''Five'', rating := Some ''PG'',
        duration := Some ''-5 min'', date_added := DateStr ''January 1, 2020'',
        listed_in := Some ''Drama''\<rparr>]"

definition negative_df :: frame where
  "negative_df =
     [blank_row\<lparr>type := Some ''Movie'', title := Some ''Five'', rating := Some ''PG'',
        duration := Some ''-5 min'',
        date_added := Timestamp \<lparr>year = 2020, month = 1, day = 1\<rparr>,
        listed_in := Some ''Drama'', country := Some ''No Data'',
        cast := Some ''No Data'', director := Some ''No Data'',
        added_year := Some 2020, added_month := Some 1, added_day := Some 1\<rparr>]"


section \<open>Whitespace splitting\<close>

lemma split_ws_Nil_iff: "split_ws s = [] \<longleftrightarrow> (\<forall>c\<in>set s. isspace c)"
proof (cases "dropWhile isspace s")
  case Nil
  then have "split_ws s = []"
    by (subst split_ws.simps) (simp only: list.case)
  moreover from Nil have "\<forall>c\<in>set s. isspace c"
    by (simp add: dropWhile_eq_Nil_conv)
  ultimately show ?thesis by simp
next
  case (Cons c cs)
  then have "split_ws s \<noteq> []"
    by (subst split_ws.simps) (simp only: list.case list.distinct not_False_eq_True)
  moreover from Cons have "\<not> (\<forall>c\<in>set s. isspace c)"
    by (metis dropWhile_eq_Nil_conv list.distinct(1))
  ultimately show ?thesis by simp
qed

lemma sublist_Season_nonspace:
  assumes "sublist ''Season'' s"
  shows "\<exists>c\<in>set s. \<not> isspace c"
proof -
  from assms obtain ps ss where "s = ps @ ''Season'' @ ss"
    by (auto simp: sublist_def)
  then have "CHR ''S'' \<in> set s" by simp
  moreover have "\<not> isspace CHR ''S''" by (simp add: isspace_def)
  ultimately show ?thesis by blast
qed

lemma py_int_cases: "py_int s = Inl ValueError \<or> (\<exists>n. py_int s = Inr n)"
  by (auto simp: py_int_def Let_def split: prod.splits)

section \<open>The season parser never raises\<close>

lemma parse_seasons_Str_returns: "\<exists>r. parse_seasons (Str s) = Inr r"
proof (cases "sublist ''Season'' s")
  case True
  then have "split_ws s \<noteq> []"
    using sublist_Season_nonspace split_ws_Nil_iff by blast
  then obtain num rest where sp: "split_ws s = num # rest"
    by (cases "split_ws s") auto
  from py_int_cases [of num] show ?thesis
    using True sp by (auto simp: parse_seasons_def getitem0_def)
next
  case False
  then show ?thesis by (simp add: parse_seasons_def)
qed


text \<open>
  C10. \<open>parse_seasons\<close> is total: on every value (not a string, a string without
  \<^verbatim>\<open>Season\<close>, a string with \<^verbatim>\<open>Season\<close> whose first token is not an integer) it
  returns an integer or the null marker and raises nothing. A string that contains
  \<^verbatim>\<open>Season\<close> has a token, so \<^verbatim>\<open>x.split()[0]\<close> cannot raise \<^verbatim>\<open>IndexError\<close>, and \<^verbatim>\<open>int\<close>
  raises \<^verbatim>\<open>ValueError\<close> only, which is caught.
\<close>

theorem parse_seasons_total: "\<exists>r. parse_seasons x = Inr r"
proof (cases x)
  case (Str s)
  then show ?thesis using parse_seasons_Str_returns [of s] by simp
next
  case (FloatVal v)
  then show ?thesis by (simp add: parse_seasons_def)
next
  case (IntVal i)
  then show ?thesis by (simp add: parse_seasons_def)
next
  case (BoolVal b)
  then show ?thesis by (simp add: parse_seasons_def)
next
  case NoneVal
  then show ?thesis by (simp add: parse_seasons_def)
qed

section \<open>The movie parser raises on a token that is not a number\<close>

text \<open>
  C2. The claim is that \<open>parse_movie_duration\<close> never raises. On \<^verbatim>\<open>"abc min"\<close> the
  stripped string ends in \<^verbatim>\<open>min\<close>, so \<^verbatim>\<open>float("abc")\<close> is evaluated and raises
  \<^verbatim>\<open>ValueError\<close>, which nothing catches: the parser raises, and so does the movie cell on
  a table with such a Movie row.
\<close>

theorem parse_movie_duration_raises:
  "parse_movie_duration (Str ''abc min'') = Inl ValueError
   \<and> fst (movies_cell (start [blank_row\<lparr>type := Some ''Movie'', duration := Some ''abc min''\<rparr>]))
       = Some ValueError"
  by code_simp

section \<open>The cleaner\<close>
lemma fill_optional_fields:
  "rating (fill_optional r) = rating r" "duration (fill_optional r) = duration r"
  "date_added (fill_optional r) = date_added r"
  "country (fill_optional r) = fillna ''No Data'' (country r)"
  "cast (fill_optional r) = fillna ''No Data'' (cast r)"
  "director (fill_optional r) = fillna ''No Data'' (director r)"
  by (simp_all add: fill_optional_def)

lemma fillna_not_None: "fillna v c \<noteq> None"
  by (simp add: fillna_def split: option.splits)

lemma fillna_eq: "fillna v c = (if c = None then Some v else c)"
  by (simp add: fillna_def split: option.splits)

text \<open>
  C3. On every table with at least one row the cleaning cell returns (on a table without
  rows its report divides by zero, and no row survives). In every row that survives,
  \<^verbatim>\<open>rating\<close>, \<^verbatim>\<open>duration\<close> and \<^verbatim>\<open>date_added\<close> are not null, and neither are \<^verbatim>\<open>country\<close>,
  \<^verbatim>\<open>cast\<close> and \<^verbatim>\<open>director\<close>. The surviving rows are, in order, the rows of the input with
  the three required fields present; each of the three optional fields is
  \<^verbatim>\<open>"No Data"\<close> exactly where it was null and is unchanged where it was present, and no
  other column changes.
\<close>

theorem cleaning_cell_invariant:
  assumes "raw \<noteq> []"
  shows "\<exists>rep df1. cleaning_cell raw = Inr (rep, df1)
    \<and> (\<forall>r\<in>set df1. rating r \<noteq> None \<and> duration r \<noteq> None \<and> date_added r \<noteq> DateNull
          \<and> country r \<noteq> None \<and> cast r \<noteq> None \<and> director r \<noteq> None)
    \<and> list_all2 (\<lambda>r r'.
          country r' = (if country r = None then Some ''No Data'' else country r)
        \<and> cast r' = (if cast r = None then Some ''No Data'' else cast r)
        \<and> director r' = (if director r = None then Some ''No Data'' else director r)
        \<and> r'\<lparr>country := country r, cast := cast r, director := director r\<rparr> = r)
        (filter (\<lambda>r. rating r \<noteq> None \<and> duration r \<noteq> None \<and> date_added r \<noteq> DateNull) raw)
        df1"
proof -
  let ?kept = "filter has_required raw"
  have cell: "cleaning_cell raw = Inr (\<lparr>missing_rating = length (filter (\<lambda>r. rating r = None) raw),
                 missing_duration = length (filter (\<lambda>r. duration r = None) raw),
                 missing_date = length (filter (\<lambda>r. date_added r = DateNull) raw),
                 dropped = length raw - length ?kept\<rparr>, map fill_optional ?kept)"
    using assms by (simp add: cleaning_cell_def Let_def)
  have nonnull: "\<forall>r\<in>set (map fill_optional ?kept). rating r \<noteq> None \<and> duration r \<noteq> None
      \<and> date_added r \<noteq> DateNull \<and> country r \<noteq> None \<and> cast r \<noteq> None \<and> director r \<noteq> None"
    by (auto simp: fill_optional_fields fillna_def has_required_def split: option.splits)
  have rel: "list_all2 (\<lambda>r r'.
          country r' = (if country r = None then Some ''No Data'' else country r)
        \<and> cast r' = (if cast r = None then Some ''No Data'' else cast r)
        \<and> director r' = (if director r = None then Some ''No Data'' else director r)
        \<and> r'\<lparr>country := country r, cast := cast r, director := director r\<rparr> = r)
        ?kept (map fill_optional ?kept)"
    unfolding list_all2_map2
    by (rule list_all2_refl) (simp add: fill_optional_fields fillna_eq, simp add: fill_optional_def)
  have kept: "?kept = filter (\<lambda>r. rating r \<noteq> None \<and> duration r \<noteq> None \<and> date_added r \<noteq> DateNull) raw"
    by (simp add: has_required_def [abs_def])
  show ?thesis
    using cell nonnull rel unfolding kept by blast
qed

theorem cleaning_cell_invariant_witness:
  "example_raw \<noteq> []
   \<and> (\<exists>rep df1. cleaning_cell example_raw = Inr (rep, df1)
    \<and> (\<forall>r\<in>set df1. rating r \<noteq> None \<and> duration r \<noteq> None \<and> date_added r \<noteq> DateNull
          \<and> country r \<noteq> None \<and> cast r \<noteq> None \<and> director r \<noteq> None)
    \<and> list_all2 (\<lambda>r r'.
          country r' = (if country r = None then Some ''No Data'' else country r)
        \<and> cast r' = (if cast r = None then Some ''No Data'' else cast r)
        \<and> director r' = (if director r = None then Some ''No Data'' else director r)
        \<and> r'\<lparr>country := country r, cast := cast r, director := director r\<rparr> = r)
        (filter (\<lambda>r. rating r \<noteq> None \<and> duration r \<noteq> None \<and> date_added r \<noteq> DateNull)
           example_raw)
        df1)"
proof -
  have h: "example_raw \<noteq> []" by (simp add: example_raw_def)
  from cleaning_cell_invariant [OF h] h show ?thesis by blast
qed

section \<open>Dates that do not parse\<close>








section \<open>Counters and stable sorting\<close>

lemma firsts_snoc: "firsts (xs @ [x]) = (if x \<in> set xs then firsts xs else firsts xs @ [x])"
  by (simp add: firsts_def)

lemma set_firsts [simp]: "set (firsts xs) = set xs"
  by (simp add: firsts_def)

lemma distinct_firsts [simp]: "distinct (firsts xs)"
  by (simp add: firsts_def)

lemma incr_map:
  "distinct ks \<Longrightarrow>
   incr x (map (\<lambda>k. (k, c k)) ks) =
     (if x \<in> set ks then map (\<lambda>k. (k, if k = x then Suc (c k) else c k)) ks
      else map (\<lambda>k. (k, c k)) ks @ [(x, 1)])"
  by (induction ks) auto

lemma Counter_snoc: "Counter (xs @ [x]) = incr x (Counter xs)"
  by (simp add: Counter_def)

lemma Counter_eq: "Counter xs = map (\<lambda>k. (k, count_list xs k)) (firsts xs)"
proof (induction xs rule: rev_induct)
  case Nil
  show ?case by (simp add: Counter_def firsts_def)
next
  case (snoc x xs)
  show ?case
  proof (cases "x \<in> set xs")
    case True
    then show ?thesis
      by (simp add: Counter_snoc snoc.IH incr_map firsts_snoc)
  next
    case False
    then have "map (\<lambda>k. (k, count_list (xs @ [x]) k)) (firsts xs)
             = map (\<lambda>k. (k, count_list xs k)) (firsts xs)"
      by (intro map_cong) auto
    with False show ?thesis
      by (simp add: Counter_snoc snoc.IH incr_map firsts_snoc count_list_0_iff)
  qed
qed

lemma first_index_less: "k \<in> set xs \<Longrightarrow> first_index xs k < length xs"
  unfolding first_index_def by (induction xs) auto

lemma first_index_append: "k \<in> set xs \<Longrightarrow> first_index (xs @ ys) k = first_index xs k"
  unfolding first_index_def by (subst takeWhile_append1 [where x = k]) auto

lemma first_index_new: "k \<notin> set xs \<Longrightarrow> first_index (xs @ [k]) k = length xs"
  unfolding first_index_def by (subst takeWhile_append2) auto

lemma firsts_sorted: "sorted_wrt (\<lambda>a b. first_index xs a < first_index xs b) (firsts xs)"
proof (induction xs rule: rev_induct)
  case Nil
  show ?case by (simp add: firsts_def)
next
  case (snoc x xs)
  have old: "sorted_wrt (\<lambda>a b. first_index (xs @ [x]) a < first_index (xs @ [x]) b) (firsts xs)"
    using snoc.IH
    by (rule sorted_wrt_mono_rel [rotated]) (simp add: first_index_append)
  show ?case
  proof (cases "x \<in> set xs")
    case True
    with old show ?thesis by (simp add: firsts_snoc)
  next
    case False
    with old show ?thesis
      by (auto simp: firsts_snoc sorted_wrt_append first_index_append first_index_new
          first_index_less)
  qed
qed


lemma ranks_before_key:
  "ranks_before toks a b \<longleftrightarrow>
     (- int (snd a) < - int (snd b)
      \<or> (- int (snd a) = - int (snd b) \<and> first_index toks (fst a) < first_index toks (fst b)))"
  by (auto simp: ranks_before_def)

lemma insort_lex:
  fixes f :: "'a \<Rightarrow> int" and h :: "'a \<Rightarrow> nat"
  assumes "sorted_wrt (\<lambda>a b. f a < f b \<or> (f a = f b \<and> h a < h b)) ys"
    and "\<forall>y\<in>set ys. h x < h y"
  shows "sorted_wrt (\<lambda>a b. f a < f b \<or> (f a = f b \<and> h a < h b)) (insort_key f x ys)"
  using assms
proof (induction ys)
  case Nil
  then show ?case by simp
next
  case (Cons y ys)
  show ?case
  proof (cases "f x \<le> f y")
    case True
    have "f x < f z \<or> (f x = f z \<and> h x < h z)" if "z \<in> set (y # ys)" for z
    proof -
      have "f y \<le> f z" using Cons.prems(1) that by auto
      with True have "f x \<le> f z" by simp
      moreover have "h x < h z" using Cons.prems(2) that by auto
      ultimately show ?thesis by auto
    qed
    with True Cons.prems(1) show ?thesis by simp
  next
    case False
    with Cons show ?thesis by (auto simp: set_insort_key)
  qed
qed

lemma sort_key_lex:
  fixes f :: "'a \<Rightarrow> int" and h :: "'a \<Rightarrow> nat"
  assumes "sorted_wrt (\<lambda>a b. h a < h b) xs"
  shows "sorted_wrt (\<lambda>a b. f a < f b \<or> (f a = f b \<and> h a < h b)) (sort_key f xs)"
  using assms
proof (induction xs)
  case Nil
  show ?case by simp
next
  case (Cons x xs)
  then show ?case by (auto intro!: insort_lex)
qed

lemma most_common_ranked:
  "sorted_wrt (ranks_before toks) (most_common n (Counter toks))"
proof -
  have "sorted_wrt (\<lambda>a b. first_index toks (fst a) < first_index toks (fst b)) (Counter toks)"
    unfolding Counter_eq sorted_wrt_map using firsts_sorted [of toks] by simp
  from sort_key_lex [OF this, of "\<lambda>kv. - int (snd kv)"]
  have "sorted_wrt (ranks_before toks) (sort_desc (Counter toks))"
    unfolding sort_desc_def ranks_before_key [abs_def] .
  then show ?thesis
    unfolding most_common_def by (rule sorted_wrt_take)
qed








lemma count_list_filter: "count_list xs x = length (filter (\<lambda>y. y = x) xs)"
  by (induction xs) auto



section \<open>The country ranking\<close>



lemma take_sort_desc_ranked:
  "sorted_wrt (ranks_before toks) (take n (sort_desc (Counter toks)))"
  using most_common_ranked [of toks n] by (simp add: most_common_def)


section \<open>Order of the rankings\<close>


section \<open>Exploded tokens\<close>

lemma find_sep_None_pair:
  "a \<noteq> b \<Longrightarrow> find_sep [a, b] s = None \<Longrightarrow> occurrences [a, b] s = 0"
  by (induction s) (auto split: if_splits option.splits)

lemma find_sep_Some_pair:
  "a \<noteq> b \<Longrightarrow> find_sep [a, b] s = Some (p, r) \<Longrightarrow> occurrences [a, b] s = Suc (occurrences [a, b] r)"
proof (induction s arbitrary: p)
  case Nil
  then show ?case by simp
next
  case (Cons c cs)
  show ?case
  proof (cases "prefix [a, b] (c # cs)")
    case True
    then obtain t where t: "c # cs = a # b # t"
      by (auto simp: prefix_def)
    with Cons.prems have "r = t" by simp
    with t Cons.prems(1) show ?thesis by (cases t) auto
  next
    case False
    with Cons show ?thesis by (auto split: option.splits)
  qed
qed

lemma length_split_pair:
  "a \<noteq> b \<Longrightarrow> length (split_from [a, b] s) = occurrences [a, b] s + 1"
proof (induction "[a, b]" s rule: split_from.induct)
  case (1 s)
  show ?case
  proof (cases "find_sep [a, b] s")
    case None
    with 1 find_sep_None_pair [of a b s] show ?thesis
      by (subst split_from.simps) simp
  next
    case (Some pr)
    obtain p r where pr: "pr = (p, r)" by (cases pr)
    with Some 1 find_sep_Some_pair [of a b s p r] show ?thesis
      by (subst split_from.simps) simp
  qed
qed

lemma find_sep_None_char: "find_sep [a] s = None \<Longrightarrow> count_list s a = 0"
  by (induction s) (auto split: if_splits option.splits)

lemma find_sep_Some_char:
  "find_sep [a] s = Some (p, r) \<Longrightarrow> count_list s a = Suc (count_list r a)"
  by (induction s arbitrary: p) (auto split: if_splits option.splits)

lemma length_split_char: "length (split_from [a] s) = count_list s a + 1"
proof (induction "[a]" s rule: split_from.induct)
  case (1 s)
  show ?case
  proof (cases "find_sep [a] s")
    case None
    with 1 find_sep_None_char [of a s] show ?thesis
      by (subst split_from.simps) simp
  next
    case (Some pr)
    obtain p r where pr: "pr = (p, r)" by (cases pr)
    with Some 1 find_sep_Some_char [of a s p r] show ?thesis
      by (subst split_from.simps) simp
  qed
qed

lemma occurrences_char: "occurrences [a] s = count_list s a"
  by (induction s) auto

lemma sum_incr: "sum_list (map snd (incr x c)) = Suc (sum_list (map snd c))"
  by (induction c) auto

lemma sum_Counter: "sum_list (map snd (Counter xs)) = length xs"
  by (induction xs rule: rev_induct) (simp_all add: Counter_def sum_incr)

lemma length_all_genres:
  "length (all_genres df0) = (\<Sum>c\<leftarrow>dropna (map listed_in df0). count_list c CHR '','' + 1)"
  by (simp add: all_genres_def length_concat o_def length_split_char)

lemma flatten_cast_Some:
  "flatten_cast (map Some xss) = Inr (concat (map (map strip) xss))"
  by (induction xss) auto

lemma cast_series_nonnull:
  assumes "\<forall>r\<in>set df0. cast r \<noteq> None"
  shows "cast_series df0 = map (\<lambda>c. Some (split_from '', '' c)) (cast_fields df0)"
  using assms
  by (induction df0) (auto simp: cast_series_def cast_fields_def dropna_def)

lemma flat_cast_list_nonnull:
  assumes "\<forall>r\<in>set df0. cast r \<noteq> None"
  shows "flat_cast_list df0 = Inr (concat (map (\<lambda>c. map strip (split_from '', '' c)) (cast_fields df0)))"
  using flatten_cast_Some [of "map (split_from '', '') (cast_fields df0)"]
  by (simp add: flat_cast_list_def cast_series_nonnull [OF assms] o_def)

lemma cleaned_cast_nonnull:
  assumes "cleaned raw = Inr df0"
  shows "\<forall>r\<in>set df0. cast r \<noteq> None"
proof -
  from assms obtain rep df1 where c: "cleaning_cell raw = Inr (rep, df1)"
    and d: "df0 = snd (date_cell df1)"
    by (auto simp: cleaned_def split: sum.splits)
  from c have "\<forall>r\<in>set df1. cast r \<noteq> None"
    by (auto simp: cleaning_cell_def Let_def fill_optional_def fillna_def
        split: if_splits option.splits)
  moreover have "cast (extract_ymd r) = cast r" for r
    by (simp add: extract_ymd_def split: datecell.splits)
  ultimately show ?thesis
    unfolding d by (auto simp: date_cell_def parse_dates_def Let_def)
qed

text \<open>
  C7 (as amended). For every cleaned table, the number of exploded genre tokens is the
  sum, over the rows whose \<^verbatim>\<open>listed_in\<close> is not null, of the number of commas in
  \<^verbatim>\<open>listed_in\<close> plus one. The cast list exists, and the number of exploded cast tokens is
  the sum, over the rows whose \<^verbatim>\<open>cast\<close> is not the sentinel, of the number of occurrences
  of the separator \<^verbatim>\<open>", "\<close> (comma and blank) in \<^verbatim>\<open>cast\<close> plus one. Nothing is
  deduplicated: the counts of each frequency table add up to the number of tokens.
\<close>

theorem exploded_token_counts:
  assumes "cleaned raw = Inr df0"
  shows "length (all_genres df0) = (\<Sum>c\<leftarrow>dropna (map listed_in df0). count_list c CHR '','' + 1)
    \<and> sum_list (map snd (Counter (all_genres df0))) = length (all_genres df0)
    \<and> (\<exists>xs. flat_cast_list df0 = Inr xs
          \<and> length xs = (\<Sum>c\<leftarrow>cast_fields df0. occurrences '', '' c + 1)
          \<and> sum_list (map snd (Counter xs)) = length xs)"
proof -
  let ?xs = "concat (map (\<lambda>c. map strip (split_from '', '' c)) (cast_fields df0))"
  have "flat_cast_list df0 = Inr ?xs"
    by (rule flat_cast_list_nonnull [OF cleaned_cast_nonnull [OF assms]])
  moreover have "length ?xs = (\<Sum>c\<leftarrow>cast_fields df0. occurrences '', '' c + 1)"
    by (simp add: length_concat o_def length_split_pair)
  ultimately show ?thesis
    by (simp add: length_all_genres sum_Counter)
qed

theorem exploded_token_counts_witness:
  "cleaned example_raw = Inr example_df
   \<and> length (all_genres example_df) = 4
   \<and> (\<Sum>c\<leftarrow>dropna (map listed_in example_df). count_list c CHR '','' + 1) = 4
   \<and> flat_cast_list example_df = Inr [''A,B'', ''C'']
   \<and> (\<Sum>c\<leftarrow>cast_fields example_df. occurrences '', '' c + 1) = 2"
proof -
  have h: "cleaned example_raw = Inr example_df" by code_simp
  have a: "length (all_genres example_df) = 4" by code_simp
  have b: "flat_cast_list example_df = Inr [''A,B'', ''C'']" by code_simp
  from exploded_token_counts [OF h] h a b show ?thesis by auto
qed

text \<open>
  C7 as stated fails for the cast: \<^verbatim>\<open>"A,B, C"\<close> has two commas, but only one of them is
  followed by a blank, so the field gives two tokens and not three.
\<close>

theorem cast_tokens_counterexample:
  "cleaned example_raw = Inr example_df
   \<and> flat_cast_list example_df = Inr [''A,B'', ''C'']
   \<and> length [''A,B'', ''C''] \<noteq> (\<Sum>c\<leftarrow>cast_fields example_df. count_list c CHR '','' + 1)"
  by code_simp

section \<open>What the movie and season cells do to the notebook\<close>

lemma apply_series_Inr:
  "apply_series f xs = Inr ys \<Longrightarrow> list_all2 (\<lambda>x y. f x = Inr y) xs ys"
  by (induction xs arbitrary: ys) (auto split: sum.splits)

lemma list_all2_setD1:
  "list_all2 P xs ys \<Longrightarrow> x \<in> set xs \<Longrightarrow> \<exists>y\<in>set ys. P x y"
  by (induction xs ys rule: list_all2_induct) auto

lemma list_all2_setD2:
  "list_all2 P xs ys \<Longrightarrow> y \<in> set ys \<Longrightarrow> \<exists>x\<in>set xs. P x y"
  by (induction xs ys rule: list_all2_induct) auto


lemma movies_cell_unbound:
  "read_var nb (df nb) = Inl x \<Longrightarrow> movies_cell nb = (Some x, nb)"
  by (simp add: movies_cell_def)

lemma movies_cell_raised:
  assumes "read_var nb (df nb) = Inr d"
    and "apply_series parse_movie_duration
           (map (\<lambda>r. cell (duration r)) (filter (\<lambda>r. type r = Some ''Movie'') d)) = Inl x"
  shows "movies_cell nb =
     (Some x, nb\<lparr>frames := frames nb @ [filter (\<lambda>r. type r = Some ''Movie'') d],
                 df_movies := Some (length (frames nb))\<rparr>)"
  using assms by (simp add: movies_cell_def alloc_def Let_def)

lemma movies_cell_done:
  assumes "read_var nb (df nb) = Inr d"
    and "apply_series parse_movie_duration
           (map (\<lambda>r. cell (duration r)) (filter (\<lambda>r. type r = Some ''Movie'') d)) = Inr col"
  shows "movies_cell nb =
     (None, nb\<lparr>frames := frames nb @
                   [set_duration_int (filter (\<lambda>r. type r = Some ''Movie'') d) col,
                    filter (\<lambda>r. \<not> isna_float (duration_int r))
                      (set_duration_int (filter (\<lambda>r. type r = Some ''Movie'') d) col)],
                 df_movies := Some (Suc (length (frames nb))),
                 bad_durations := Some (length (filter (\<lambda>r. isna_float (duration_int r))
                      (set_duration_int (filter (\<lambda>r. type r = Some ''Movie'') d) col)))\<rparr>)"
  using assms by (simp add: movies_cell_def alloc_def Let_def nth_append)




lemma read_var_grown:
  "read_var nb v = Inr d \<Longrightarrow> read_var (nb\<lparr>frames := frames nb @ extra\<rparr>) v = Inr d"
  by (auto simp: read_var_def nth_append split: option.splits if_splits)




lemma filter_set_column:
  assumes "list_all2 (\<lambda>r v. f r = Inr v) sel col"
    and "\<And>r v. keep' (g r v) = keep v"
  shows "list_all2 (\<lambda>r r'. \<exists>v. f r = Inr v \<and> keep v \<and> r' = g r v)
           (filter (\<lambda>r. \<exists>v. f r = Inr v \<and> keep v) sel)
           (filter (\<lambda>r'. keep' r') (map (\<lambda>(r, v). g r v) (zip sel col)))"
  using assms(1)
proof (induction sel col rule: list_all2_induct)
  case Nil
  show ?case by simp
next
  case (Cons r rs v vs)
  then show ?case using assms(2) by auto
qed

section \<open>Tokens and trimming\<close>

lemma split_ws_dropWhile: "split_ws (dropWhile isspace s) = split_ws s"
  by (subst (1 2) split_ws.simps) simp

lemma split_ws_all_space: "\<forall>c\<in>set ws. isspace c \<Longrightarrow> split_ws ws = []"
  by (simp add: split_ws_Nil_iff)

lemma split_ws_trailing:
  assumes "\<forall>c\<in>set ws. isspace c"
  shows "split_ws (xs @ ws) = split_ws xs"
proof (induction xs rule: split_ws.induct)
  case (1 s)
  show ?case
  proof (cases "dropWhile isspace s")
    case Nil
    then have "\<forall>c\<in>set (s @ ws). isspace c"
      using assms by (auto simp: dropWhile_eq_Nil_conv)
    then have "split_ws (s @ ws) = []" by (rule split_ws_all_space)
    moreover from Nil have "split_ws s = []"
      by (simp add: split_ws_Nil_iff dropWhile_eq_Nil_conv)
    ultimately show ?thesis by simp
  next
    case (Cons c cs)
    then obtain x where x: "x \<in> set s" "\<not> isspace x"
      by (metis dropWhile_eq_Nil_conv list.distinct(1))
    have dw: "dropWhile isspace (s @ ws) = (c # cs) @ ws"
      using dropWhile_append1 [of x s isspace ws] x Cons by simp
    let ?t = "c # cs"
    have tk: "takeWhile (\<lambda>d. \<not> isspace d) (?t @ ws) = takeWhile (\<lambda>d. \<not> isspace d) ?t"
    proof (cases "\<forall>x\<in>set ?t. \<not> isspace x")
      case True
      then have "takeWhile (\<lambda>d. \<not> isspace d) (?t @ ws) = ?t @ takeWhile (\<lambda>d. \<not> isspace d) ws"
        by (intro takeWhile_append2) auto
      moreover have "takeWhile (\<lambda>d. \<not> isspace d) ws = []"
        using assms by (cases ws) auto
      moreover from True have "takeWhile (\<lambda>d. \<not> isspace d) ?t = ?t"
        by (simp only: takeWhile_eq_all_conv)
      ultimately show ?thesis by simp
    next
      case False
      then obtain x where "x \<in> set ?t" "isspace x" by blast
      then show ?thesis by (subst takeWhile_append1 [where x = x]) auto
    qed
    have rest: "split_ws (dropWhile (\<lambda>d. \<not> isspace d) (?t @ ws))
              = split_ws (dropWhile (\<lambda>d. \<not> isspace d) ?t)"
    proof (cases "\<forall>x\<in>set ?t. \<not> isspace x")
      case True
      then have "dropWhile (\<lambda>d. \<not> isspace d) (?t @ ws) = dropWhile (\<lambda>d. \<not> isspace d) ws"
        by (intro dropWhile_append2) auto
      also have "\<dots> = ws" using assms by (cases ws) auto
      finally have "split_ws (dropWhile (\<lambda>d. \<not> isspace d) (?t @ ws)) = []"
        using assms by (simp add: split_ws_all_space)
      moreover from True have "dropWhile (\<lambda>d. \<not> isspace d) ?t = []"
        by (simp add: dropWhile_eq_Nil_conv)
      then have "split_ws (dropWhile (\<lambda>d. \<not> isspace d) ?t) = []"
        by (simp add: split_ws_Nil_iff)
      ultimately show ?thesis by simp
    next
      case False
      then obtain x where "x \<in> set ?t" "isspace x" by blast
      then have "dropWhile (\<lambda>d. \<not> isspace d) (?t @ ws) = dropWhile (\<lambda>d. \<not> isspace d) ?t @ ws"
        by (subst dropWhile_append1 [where x = x]) auto
      with "1.IH" [OF Cons] show ?thesis by simp
    qed
    have "split_ws (s @ ws) = takeWhile (\<lambda>d. \<not> isspace d) (?t @ ws)
            # split_ws (dropWhile (\<lambda>d. \<not> isspace d) (?t @ ws))"
      by (subst split_ws.simps) (simp only: dw append_Cons list.case)
    also have "\<dots> = takeWhile (\<lambda>d. \<not> isspace d) ?t # split_ws (dropWhile (\<lambda>d. \<not> isspace d) ?t)"
      by (simp only: tk rest)
    also have "\<dots> = split_ws s"
      by (subst (2) split_ws.simps) (simp only: Cons list.case)
    finally show ?thesis .
  qed
qed

lemma strip_decomp:
  "\<exists>ws. (\<forall>c\<in>set ws. isspace c) \<and> dropWhile isspace s = strip s @ ws"
proof -
  let ?t = "dropWhile isspace s"
  have "rev ?t = takeWhile isspace (rev ?t) @ dropWhile isspace (rev ?t)" by simp
  then have "?t = rev (dropWhile isspace (rev ?t)) @ rev (takeWhile isspace (rev ?t))"
    by (metis rev_append rev_rev_ident)
  moreover have "\<forall>c\<in>set (rev (takeWhile isspace (rev ?t))). isspace c"
    by (auto dest: set_takeWhileD)
  ultimately show ?thesis unfolding strip_def by blast
qed

lemma split_ws_strip: "split_ws (strip s) = split_ws s"
proof -
  from strip_decomp [of s] obtain ws where ws: "\<forall>c\<in>set ws. isspace c"
    and eq: "dropWhile isspace s = strip s @ ws" by blast
  have "split_ws s = split_ws (strip s @ ws)"
    using split_ws_dropWhile [of s] eq by simp
  with split_ws_trailing [OF ws] show ?thesis by simp
qed

lemma split_ws_first:
  assumes "split_ws s = tok # rest"
  shows "tok = takeWhile (\<lambda>d. \<not> isspace d) (dropWhile isspace s)"
    and "tok \<noteq> []" and "\<forall>c\<in>set tok. \<not> isspace c"
proof -
  from assms obtain c cs where cs: "dropWhile isspace s = c # cs"
    by (subst (asm) split_ws.simps) (auto split: list.splits)
  with assms show tok: "tok = takeWhile (\<lambda>d. \<not> isspace d) (dropWhile isspace s)"
    by (subst (asm) split_ws.simps) simp
  have "\<not> isspace c"
    using cs hd_dropWhile [of isspace s] by (metis list.sel(1) list.distinct(1))
  with tok cs show "tok \<noteq> []" by simp
  from tok show "\<forall>c\<in>set tok. \<not> isspace c" by (auto dest: set_takeWhileD)
qed

section \<open>Conversions of a token without whitespace\<close>

lemma c_isspace_isspace: "c_isspace c \<Longrightarrow> isspace c"
  by (auto simp: c_isspace_def isspace_def)

lemma ascii_transform_cases:
  "ascii_transform s = s \<or>
   ascii_transform s = map (\<lambda>c. if (of_char c :: nat) < 127 then c
                     else if isspace c then CHR '' '' else CHR ''?'') s"
  by (simp add: ascii_transform_def)

lemma ascii_transform_no_space:
  assumes "\<forall>c\<in>set tok. \<not> isspace c"
  shows "\<forall>c\<in>set (ascii_transform tok). \<not> c_isspace c"
proof
  fix c
  assume c: "c \<in> set (ascii_transform tok)"
  have q: "\<not> c_isspace CHR ''?''" by (simp add: c_isspace_def)
  from ascii_transform_cases [of tok] show "\<not> c_isspace c"
  proof
    assume "ascii_transform tok = tok"
    with c assms show ?thesis using c_isspace_isspace by auto
  next
    assume "ascii_transform tok = map (\<lambda>c. if (of_char c :: nat) < 127 then c
                     else if isspace c then CHR '' '' else CHR ''?'') tok"
    with c obtain d where d: "d \<in> set tok"
      and cd: "c = (if (of_char d :: nat) < 127 then d else if isspace d then CHR '' '' else CHR ''?'')"
      by auto
    from d assms have "\<not> isspace d" by blast
    with cd q c_isspace_isspace [of d] show ?thesis by (auto split: if_splits)
  qed
qed

lemma ascii_transform_minus:
  assumes "ascii_transform tok = CHR ''-'' # cs"
  shows "prefix ''-'' tok"
proof -
  have q: "CHR ''?'' \<noteq> CHR ''-''" and b: "CHR '' '' \<noteq> CHR ''-''" by simp_all
  from ascii_transform_cases [of tok] show ?thesis
  proof
    assume "ascii_transform tok = tok"
    with assms show ?thesis by simp
  next
    assume m: "ascii_transform tok = map (\<lambda>c. if (of_char c :: nat) < 127 then c
                     else if isspace c then CHR '' '' else CHR ''?'') tok"
    with assms obtain d ds where "tok = d # ds"
      and "(if (of_char d :: nat) < 127 then d else if isspace d then CHR '' '' else CHR ''?'') = CHR ''-''"
      by (cases tok) auto
    then show ?thesis using q b by (auto split: if_splits)
  qed
qed


lemma underscores_subset: "underscores prev t = Some u \<Longrightarrow> set u \<subseteq> set t"
proof (induction t arbitrary: prev u)
  case Nil
  then show ?case by (simp split: if_splits)
next
  case (Cons c t)
  show ?case
  proof (cases "c = CHR ''_''")
    case True
    with Cons.prems have "underscores c t = Some u" by (simp split: if_splits)
    from Cons.IH [OF this] show ?thesis by auto
  next
    case False
    with Cons.prems obtain r where r: "underscores c t = Some r" and u: "u = c # r"
      by (auto split: if_splits option.splits)
    from Cons.IH [OF r] u show ?thesis by auto
  qed
qed

lemma underscores_first:
  assumes "underscores (CHR 0x00) t = Some (c # r)"
  shows "\<exists>cs. t = c # cs"
proof (cases t)
  case Nil
  with assms show ?thesis by simp
next
  case (Cons d ds)
  have "\<not> isdigit (CHR 0x00)" by (simp add: isdigit_def)
  with assms Cons show ?thesis by (auto split: if_splits option.splits)
qed

lemma c_strip_id: "\<forall>c\<in>set u. \<not> c_isspace c \<Longrightarrow> c_strip u = u"
proof -
  assume a: "\<forall>c\<in>set u. \<not> c_isspace c"
  have "dropWhile c_isspace xs = xs" if "\<forall>c\<in>set xs. \<not> c_isspace c" for xs
    using that by (cases xs) auto
  from this [of u] this [of "rev u"] a show ?thesis by (simp add: c_strip_def)
qed

lemma pow10_pos: "0 < pow10 e"
  by (simp add: pow10_def)

lemma float_number_nonneg: "float_number b = Some q \<Longrightarrow> 0 \<le> q"
  using pow10_pos
  by (auto simp: float_number_def Let_def less_imp_le split: prod.splits if_splits option.splits)

lemma split_sign_neg: "split_sign s = (True, body) \<Longrightarrow> s = CHR ''-'' # body"
  by (auto simp: split_sign_def split: list.splits if_splits)

lemma py_float_nonneg:
  assumes tok: "\<forall>c\<in>set tok. \<not> isspace c"
    and v: "py_float tok = Inr v" and nan: "v \<noteq> NaN"
  shows "nonneg v \<or> prefix ''-'' tok"
proof -
  from v obtain u where u: "underscores (CHR 0x00) (ascii_transform tok) = Some u"
    by (auto simp: py_float_def split: option.splits)
  have "\<forall>c\<in>set u. \<not> c_isspace c"
    using underscores_subset [OF u] ascii_transform_no_space [OF tok] by blast
  then have strip: "c_strip u = u" by (rule c_strip_id)
  obtain neg body where sb: "split_sign u = (neg, body)" by (cases "split_sign u")
  show ?thesis
  proof (cases neg)
    case True
    with sb have "u = CHR ''-'' # body" by (simp add: split_sign_neg)
    with underscores_first [of "ascii_transform tok" "CHR ''-''" body] u
    obtain cs where "ascii_transform tok = CHR ''-'' # cs" by auto
    then show ?thesis by (simp add: ascii_transform_minus)
  next
    case False
    with v u strip sb nan have "nonneg v"
      by (auto simp: py_float_def Let_def nonneg_def split: if_splits option.splits
          dest: float_number_nonneg)
    then show ?thesis ..
  qed
qed






section \<open>The tables the two cells leave\<close>

lemma movies_cell_bound:
  assumes "movies_cell nb = (None, nb')"
  shows "\<exists>d. read_var nb (df nb) = Inr d"
  using assms movies_cell_unbound [of nb] by (cases "read_var nb (df nb)") auto


lemma read_new_table:
  "read_var (nb\<lparr>frames := frames nb @ [a, b], df_movies := Some (Suc (length (frames nb))),
      bad_durations := x\<rparr>) (Some (Suc (length (frames nb)))) = Inr b"
  "read_var (nb\<lparr>frames := frames nb @ [a, b], df_shows := Some (Suc (length (frames nb))),
      fail_count := x\<rparr>) (Some (Suc (length (frames nb)))) = Inr b"
  by (simp_all add: read_var_def nth_append)

lemma movies_cell_table:
  assumes d: "read_var nb (df nb) = Inr d" and ok: "movies_cell nb = (None, nb')"
  shows "\<exists>fm. read_var nb' (df_movies nb') = Inr fm
     \<and> list_all2 (\<lambda>r r'. \<exists>v. parse_movie_duration (cell (duration r)) = Inr v
                           \<and> r' = r\<lparr>duration_int := Some v\<rparr>)
         (filter (\<lambda>r. type r = Some ''Movie''
                     \<and> parse_movie_duration (cell (duration r)) \<noteq> Inr NaN) d) fm"
proof -
  let ?sel = "filter (\<lambda>r. type r = Some ''Movie'') d"
  let ?f = "\<lambda>r. parse_movie_duration (cell (duration r))"
  obtain col where col: "apply_series parse_movie_duration (map (\<lambda>r. cell (duration r)) ?sel) = Inr col"
    using ok movies_cell_raised [OF d]
    by (cases "apply_series parse_movie_duration (map (\<lambda>r. cell (duration r)) ?sel)") auto
  let ?fm = "filter (\<lambda>r. \<not> isna_float (duration_int r)) (set_duration_int ?sel col)"
  from movies_cell_done [OF d col] ok
  have tab: "read_var nb' (df_movies nb') = Inr ?fm"
    using read_new_table(1) by auto
  from apply_series_Inr [OF col] have rel: "list_all2 (\<lambda>r v. ?f r = Inr v) ?sel col"
    by (simp add: list_all2_map1)
  have "list_all2 (\<lambda>r r'. \<exists>v. ?f r = Inr v \<and> v \<noteq> NaN \<and> r' = r\<lparr>duration_int := Some v\<rparr>)
          (filter (\<lambda>r. \<exists>v. ?f r = Inr v \<and> v \<noteq> NaN) ?sel) ?fm"
    unfolding set_duration_int_def
    by (rule filter_set_column [OF rel]) (simp add: isna_float_def)
  then have "list_all2 (\<lambda>r r'. \<exists>v. ?f r = Inr v \<and> r' = r\<lparr>duration_int := Some v\<rparr>)
          (filter (\<lambda>r. \<exists>v. ?f r = Inr v \<and> v \<noteq> NaN) ?sel) ?fm"
    by (rule list_all2_mono) auto
  moreover have "filter (\<lambda>r. \<exists>v. ?f r = Inr v \<and> v \<noteq> NaN) ?sel
               = filter (\<lambda>r. type r = Some ''Movie'' \<and> ?f r \<noteq> Inr NaN) d"
  proof -
    have "(\<exists>v. ?f r = Inr v \<and> v \<noteq> NaN) \<longleftrightarrow> ?f r \<noteq> Inr NaN" if "r \<in> set ?sel" for r
      using list_all2_setD1 [OF rel that] by auto
    then have "filter (\<lambda>r. \<exists>v. ?f r = Inr v \<and> v \<noteq> NaN) ?sel = filter (\<lambda>r. ?f r \<noteq> Inr NaN) ?sel"
      by (intro filter_cong) (rule refl, blast)
    then show ?thesis by (simp add: conj_commute)
  qed
  ultimately show ?thesis using tab by auto
qed


section \<open>What an accepted duration looks like\<close>

lemma parse_movie_duration_value:
  assumes "parse_movie_duration (cell c) = Inr v" and "v \<noteq> NaN"
  shows "\<exists>s tok rest. c = Some s \<and> split_ws s = tok # rest \<and> py_float tok = Inr v
           \<and> (nonneg v \<or> prefix ''-'' tok)"
proof (cases c)
  case None
  with assms show ?thesis by (simp add: cell_def parse_movie_duration_def)
next
  case (Some s)
  with assms obtain tok where g: "getitem0 (split_ws (strip s)) = Inr tok"
    and f: "py_float tok = Inr v"
    by (auto simp: cell_def parse_movie_duration_def split: if_splits sum.splits)
  from g obtain rest where sp: "split_ws s = tok # rest"
    by (auto simp: getitem0_def split_ws_strip split: list.splits)
  from split_ws_first(3) [OF sp] f assms(2) have "nonneg v \<or> prefix ''-'' tok"
    by (rule py_float_nonneg)
  with Some sp f show ?thesis by blast
qed









section \<open>Movie durations\<close>

text \<open>
  C5 (as amended). For every Movie record retained in the duration aggregation (a row of
  \<^verbatim>\<open>df_movies\<close> when the movie cell has ended normally), \<^verbatim>\<open>duration_int\<close> is a number,
  not NaN, and it is \<^verbatim>\<open>float\<close> of the leading whitespace-delimited token of the original
  \<^verbatim>\<open>duration\<close> string. It is non-negative unless that token begins with a minus sign.
\<close>

theorem movie_duration_roundtrip:
  assumes "movies_cell nb = (None, nb')"
  shows "\<exists>fm. read_var nb' (df_movies nb') = Inr fm
    \<and> (\<forall>r\<in>set fm. type r = Some ''Movie''
         \<and> (\<exists>s tok rest v. duration r = Some s \<and> split_ws s = tok # rest
               \<and> py_float tok = Inr v \<and> v \<noteq> NaN \<and> duration_int r = Some v
               \<and> (nonneg v \<or> prefix ''-'' tok)))"
proof -
  from movies_cell_bound [OF assms] obtain d where d: "read_var nb (df nb) = Inr d" by blast
  let ?kept = "filter (\<lambda>r. type r = Some ''Movie''
                     \<and> parse_movie_duration (cell (duration r)) \<noteq> Inr NaN) d"
  from movies_cell_table [OF d assms] obtain fm
    where fm: "read_var nb' (df_movies nb') = Inr fm"
      and rel: "list_all2 (\<lambda>r r'. \<exists>v. parse_movie_duration (cell (duration r)) = Inr v
                           \<and> r' = r\<lparr>duration_int := Some v\<rparr>) ?kept fm"
    by blast
  have "type r' = Some ''Movie''
         \<and> (\<exists>s tok rest v. duration r' = Some s \<and> split_ws s = tok # rest
               \<and> py_float tok = Inr v \<and> v \<noteq> NaN \<and> duration_int r' = Some v
               \<and> (nonneg v \<or> prefix ''-'' tok))" if "r' \<in> set fm" for r'
  proof -
    from list_all2_setD2 [OF rel that] obtain r v where r: "r \<in> set ?kept"
      and v: "parse_movie_duration (cell (duration r)) = Inr v"
      and r': "r' = r\<lparr>duration_int := Some v\<rparr>"
      by blast
    from r v have "v \<noteq> NaN" by auto
    from parse_movie_duration_value [OF v this] obtain s tok rest
      where "duration r = Some s" "split_ws s = tok # rest" "py_float tok = Inr v"
        "nonneg v \<or> prefix ''-'' tok"
      by blast
    with r r' \<open>v \<noteq> NaN\<close> show ?thesis by auto
  qed
  with fm show ?thesis by blast
qed

theorem movie_duration_roundtrip_witness:
  "\<exists>nb'. movies_cell (start example_df) = (None, nb')
   \<and> (\<exists>fm. movies_table example_df = Inr fm \<and> map duration_int fm = [Some (Finite 90)]
    \<and> (\<forall>r\<in>set fm. type r = Some ''Movie''
         \<and> (\<exists>s tok rest v. duration r = Some s \<and> split_ws s = tok # rest
               \<and> py_float tok = Inr v \<and> v \<noteq> NaN \<and> duration_int r = Some v
               \<and> (nonneg v \<or> prefix ''-'' tok))))"
proof -
  obtain e nb' where c: "movies_cell (start example_df) = (e, nb')"
    by (cases "movies_cell (start example_df)")
  have "fst (movies_cell (start example_df)) = None" by code_simp
  with c have h: "movies_cell (start example_df) = (None, nb')" by simp
  have t: "movies_table example_df = Inr [(example_df ! 0)\<lparr>duration_int := Some (Finite 90)\<rparr>]"
    by code_simp
  from h have "movies_table example_df = read_var nb' (df_movies nb')"
    by (simp add: movies_table_def)
  with movie_duration_roundtrip [OF h] h t show ?thesis by auto
qed

text \<open>
  C5 as stated fails: the Movie record with duration \<^verbatim>\<open>"-5 min"\<close> is retained in the
  duration aggregation with \<^verbatim>\<open>duration_int = -5.0\<close>, which is negative.
\<close>

theorem negative_duration_counterexample:
  "cleaned negative_raw = Inr negative_df
   \<and> movies_table negative_df = Inr [(negative_df ! 0)\<lparr>duration_int := Some (Finite (- 5))\<rparr>]
   \<and> \<not> nonneg (Finite (- 5))"
  by code_simp

section \<open>Season counts\<close>




section \<open>The main table is left alone\<close>



end
